theory Spec2Isabelle
  imports Complex_Main "HOL-Library.Sublist" "HOL-Library.Multiset"
begin

section \<open>The blog API of Midterm/server.js\<close>

text \<open>
  The server keeps one collection of blog posts in a document store and answers six
  requests: create, list, like, comment, search and stats. Each handler is modelled as a
  function from the request and the collection to the HTTP response and, for the three
  handlers that write, the collection afterwards. The collection is the list of its
  documents in insertion order.

  What the model fixes about the environment:
  \<^item> the store answers (a lost connection, which every handler turns into its
    \<open>catch\<close> response, is not modelled);
  \<^item> a document id is a \<open>nat\<close>; the cast of a text to a document id belongs to the
    object mapper and is a parameter \<open>cast\<close> of the handlers that read an id, as is
    the id \<open>gen\<close> that the mapper generates for a new document;
  \<^item> a request body holds, for each schema path it supplies other than \<open>_id\<close>, a
    value of the path's type, and its numbers are integers;
  \<^item> strings are lists of 8-bit characters, dates are milliseconds as \<open>int\<close>;
  \<^item> the clock (\<open>Date.now\<close>) is an input of the handlers that read it;
  \<^item> the text of an error message produced by a library is not modelled, only its kind.
\<close>

subsection \<open>Data model (postSchema, lines 21-57)\<close>

record comment =
  c_text :: "string option"
  c_user :: "string option"
  c_date :: int

record post =
  post_id :: nat
  title :: string
  content :: string
  author :: string
  tags :: "string list"
  likes :: int
  comments :: "comment list"
  published :: bool
  createdAt :: int

text \<open>The two request bodies: every path is optional, as in a JSON object.\<close>

record comment_body =
  cb_text :: "string option"
  cb_user :: "string option"

record comment_input =
  ci_text :: "string option"
  ci_user :: "string option"
  ci_date :: "int option"

record post_body =
  b_id :: "string option"
  b_title :: "string option"
  b_content :: "string option"
  b_author :: "string option"
  b_tags :: "string list option"
  b_likes :: "int option"
  b_comments :: "comment_input list option"
  b_published :: "bool option"
  b_createdAt :: "int option"

subsection \<open>Numbers\<close>

text \<open>
  A JavaScript number is a double: NaN, an infinity, or a rational that a double holds
  (the sign of zero is not kept). \<open>nearest_double\<close> rounds a rational to the nearest
  double, ties to the even significand, with gradual underflow and overflow to infinity.
\<close>

datatype jsnum = NaN | Num rat | PosInfinity | NegInfinity

fun bitlen :: "nat \<Rightarrow> nat" where
  "bitlen n = (if n = 0 then 0 else Suc (bitlen (n div 2)))"

declare bitlen.simps [simp del]

definition pow2 :: "int \<Rightarrow> rat" where
  "pow2 e = (if 0 \<le> e then 2 ^ nat e else 1 / 2 ^ nat (- e))"

definition ilog2 :: "rat \<Rightarrow> int" where
  "ilog2 x =
     (case quotient_of x of
        (a, b) \<Rightarrow>
          (let d = int (bitlen (nat a)) - int (bitlen (nat b))
           in if pow2 d \<le> x then d else d - 1))"

definition round_even :: "rat \<Rightarrow> int" where
  "round_even x =
     (let f = \<lfloor>x\<rfloor>; d = x - of_int f
      in if d < 1 / 2 then f else if 1 / 2 < d then f + 1 else if even f then f else f + 1)"

definition nearest_double :: "rat \<Rightarrow> jsnum" where
  "nearest_double x =
     (if x = 0 then Num 0
      else
        (let a = \<bar>x\<bar>;
             s = max (ilog2 a - 52) (- 1074);
             m = round_even (a / pow2 s);
             v = of_int m * pow2 s
         in if pow2 1024 \<le> v then (if 0 < x then PosInfinity else NegInfinity)
            else Num (if 0 < x then v else - v)))"

subsection \<open>Responses\<close>

datatype error = ValidationError | DuplicateKey | CastError | TypeError

record search_hit =
  hit_post :: post
  engagement :: int

record stats =
  totalPosts :: nat
  totalLikes :: int
  avgLikes :: jsnum
  publishedCount :: nat

datatype data =
    PostDoc post
  | PostDocs "post list"
  | LikesOnly int
  | CommentDoc comment
  | Hits "search_hit list"
  | StatsDoc stats
  | EmptyObject

text \<open>
  The JSON envelope \<open>{success, data, error, message, count, query}\<close> with the status
  code; a key the handler does not write is \<open>None\<close>.
\<close>

record response =
  status :: nat
  success :: bool
  data :: "data option"
  error :: "error option"
  message :: "string option"
  count :: "nat option"
  query :: "string option"

definition respond :: "nat \<Rightarrow> bool \<Rightarrow> response" where
  "respond code ok =
     \<lparr>status = code, success = ok, data = None, error = None, message = None,
      count = None, query = None\<rparr>"

subsection \<open>The store's findByIdAndUpdate with \<open>{new: true}\<close>\<close>

text \<open>
  The first document with the given id is replaced by its update and returned as
  updated; when there is none the collection is left as it is and the result is null.
\<close>

fun findByIdAndUpdate ::
  "nat \<Rightarrow> (post \<Rightarrow> post) \<Rightarrow> post list \<Rightarrow> post option \<times> post list" where
  "findByIdAndUpdate i f [] = (None, [])"
| "findByIdAndUpdate i f (p # ps) =
     (if post_id p = i then (Some (f p), f p # ps)
      else (case findByIdAndUpdate i f ps of (r, ps') \<Rightarrow> (r, p # ps')))"

definition findById :: "nat \<Rightarrow> post list \<Rightarrow> post option" where
  "findById i coll = find (\<lambda>p. post_id p = i) coll"

subsection \<open>Like (lines 115-142)\<close>

text \<open>
  The path segment is cast to a document id inside \<open>findByIdAndUpdate\<close>; a text that
  is not an id makes the call throw a CastError, which the \<open>catch\<close> answers with 500.
\<close>

definition like_post ::
  "(string \<Rightarrow> nat option) \<Rightarrow> string \<Rightarrow> post list \<Rightarrow> response \<times> post list" where
  "like_post cast id_param coll =
     (case cast id_param of
        None \<Rightarrow> ((respond 500 False)\<lparr>error := Some CastError\<rparr>, coll)
      | Some i \<Rightarrow>
          (case findByIdAndUpdate i (\<lambda>p. p\<lparr>likes := likes p + 1\<rparr>) coll of
             (None, coll') \<Rightarrow>
               ((respond 404 False)\<lparr>message := Some ''Post not found''\<rparr>, coll')
           | (Some p, coll') \<Rightarrow>
               ((respond 200 True)\<lparr>data := Some (LikesOnly (likes p))\<rparr>, coll')))"

subsection \<open>Comment (lines 145-169)\<close>

text \<open>
  The pushed entry takes \<open>text\<close> and \<open>user\<close> from the body and its \<open>date\<close> from the
  clock (the schema default). The handler reads \<open>post.comments\<close> without a null check:
  on a null result that read throws a TypeError, which the \<open>catch\<close> answers with 500,
  as it does the CastError of a path segment that is not an id. The last element is read
  by index; on an empty array the index is out of range, the value is undefined, and the
  key \<open>data\<close> is dropped from the JSON.
\<close>

definition add_comment ::
  "(string \<Rightarrow> nat option) \<Rightarrow> int \<Rightarrow> string \<Rightarrow> comment_body \<Rightarrow> post list \<Rightarrow>
   response \<times> post list" where
  "add_comment cast now id_param b coll =
     (case cast id_param of
        None \<Rightarrow> ((respond 500 False)\<lparr>error := Some CastError\<rparr>, coll)
      | Some i \<Rightarrow>
          (let c = \<lparr>c_text = cb_text b, c_user = cb_user b, c_date = now\<rparr>
           in case findByIdAndUpdate i (\<lambda>p. p\<lparr>comments := comments p @ [c]\<rparr>) coll of
                (None, coll') \<Rightarrow> ((respond 500 False)\<lparr>error := Some TypeError\<rparr>, coll')
              | (Some p, coll') \<Rightarrow>
                  ((respond 200 True)
                     \<lparr>data := (if comments p = [] then None
                                else Some (CommentDoc
                                        (comments p ! (length (comments p) - 1))))\<rparr>,
                   coll')))"

subsection \<open>Create (lines 71-87)\<close>

text \<open>
  \<open>new Post(req.body)\<close> applies the setter of \<open>title\<close> (\<open>trim: true\<close>) and the
  schema defaults, and gives the document the id \<open>gen\<close> unless the body supplies
  \<open>_id\<close>, which is then cast. \<open>save\<close> runs the validators (\<open>required\<close> on the three
  String paths, which an empty string fails, \<open>maxlength: 100\<close> on the trimmed title,
  and the failed cast of \<open>_id\<close>) and inserts the document, which the store refuses
  when a document has that id already. A failure is answered with 400.
\<close>

definition js_whitespace :: "char \<Rightarrow> bool" where
  "js_whitespace c = (of_char c \<in> {9, 10, 11, 12, 13, 32, 160 :: nat})"

definition trim :: "string \<Rightarrow> string" where
  "trim s = rev (dropWhile js_whitespace (rev (dropWhile js_whitespace s)))"

definition cast_comment :: "int \<Rightarrow> comment_input \<Rightarrow> comment" where
  "cast_comment now c =
     \<lparr>c_text = ci_text c, c_user = ci_user c,
      c_date = (case ci_date c of None \<Rightarrow> now | Some d \<Rightarrow> d)\<rparr>"

definition create_post ::
  "(string \<Rightarrow> nat option) \<Rightarrow> nat \<Rightarrow> int \<Rightarrow> post_body \<Rightarrow> post list \<Rightarrow>
   response \<times> post list" where
  "create_post cast gen now b coll =
     (case (map_option trim (b_title b), b_content b, b_author b,
            (case b_id b of None \<Rightarrow> Some gen | Some s \<Rightarrow> cast s)) of
        (Some t, Some c, Some a, Some i) \<Rightarrow>
          if t \<noteq> [] \<and> length t \<le> 100 \<and> c \<noteq> [] \<and> a \<noteq> [] then
            if i \<in> post_id ` set coll then
              ((respond 400 False)\<lparr>error := Some DuplicateKey\<rparr>, coll)
            else
              let post =
                \<lparr>post_id = i, title = t, content = c, author = a,
                 tags = (case b_tags b of None \<Rightarrow> [] | Some ts \<Rightarrow> ts),
                 likes = (case b_likes b of None \<Rightarrow> 0 | Some n \<Rightarrow> n),
                 comments = (case b_comments b of None \<Rightarrow> []
                             | Some cs \<Rightarrow> map (cast_comment now) cs),
                 published = (case b_published b of None \<Rightarrow> False | Some v \<Rightarrow> v),
                 createdAt = (case b_createdAt b of None \<Rightarrow> now | Some d \<Rightarrow> d)\<rparr>
              in ((respond 201 True)
                    \<lparr>data := Some (PostDoc post),
                     message := Some ''Post created successfully''\<rparr>,
                  coll @ [post])
          else ((respond 400 False)\<lparr>error := Some ValidationError\<rparr>, coll)
      | _ \<Rightarrow> ((respond 400 False)\<lparr>error := Some ValidationError\<rparr>, coll))"

subsection \<open>List (lines 90-112)\<close>

text \<open>
  The query parameters are optional texts. \<open>parseInt\<close> without a radix skips leading
  white space, reads a sign, reads \<open>0x\<close> or \<open>0X\<close> as the mark of radix 16, and takes
  the longest run of digits of the radix; with no digit the result is NaN, otherwise the
  double nearest to the signed value of the digits.
\<close>

record list_params =
  q_tag :: "string option"
  q_published :: "string option"
  q_limit :: "string option"

definition digit_value :: "char \<Rightarrow> nat option" where
  "digit_value c =
     (let n = (of_char c :: nat) in
      if 48 \<le> n \<and> n \<le> 57 then Some (n - 48)
      else if 97 \<le> n \<and> n \<le> 122 then Some (n - 87)
      else if 65 \<le> n \<and> n \<le> 90 then Some (n - 55)
      else None)"

definition is_digit :: "nat \<Rightarrow> char \<Rightarrow> bool" where
  "is_digit R c = (case digit_value c of None \<Rightarrow> False | Some d \<Rightarrow> d < R)"

definition digits_value :: "nat \<Rightarrow> string \<Rightarrow> nat" where
  "digits_value R z =
     fold (\<lambda>c acc. acc * R + (case digit_value c of None \<Rightarrow> 0 | Some d \<Rightarrow> d)) z 0"

definition parseInt :: "string \<Rightarrow> jsnum" where
  "parseInt inputString =
     (let S = dropWhile js_whitespace inputString;
          neg = (take 1 S = ''-'');
          S = (if take 1 S = ''-'' \<or> take 1 S = ''+'' then drop 1 S else S);
          hex = (take 2 S = ''0x'' \<or> take 2 S = ''0X'');
          R = (if hex then 16 else 10);
          S = (if hex then drop 2 S else S);
          Z = takeWhile (is_digit R) S
      in if Z = [] then NaN
         else nearest_double (of_int ((if neg then - 1 else 1) * int (digits_value R Z))))"

text \<open>
  The filter object: \<open>query.tags\<close> is written when \<open>tag\<close> is truthy (present and not
  the empty text), \<open>query.published\<close> when \<open>published\<close> is not undefined. The
  default of \<open>limit\<close> is the number 10, which \<open>parseInt\<close> reads through its text.
\<close>

record filter_obj =
  f_tags :: "string option"
  f_published :: "bool option"

definition build_query :: "list_params \<Rightarrow> filter_obj \<times> jsnum" where
  "build_query ps =
     (let limit = (case q_limit ps of None \<Rightarrow> ''10'' | Some s \<Rightarrow> s);
          query = \<lparr>f_tags = None, f_published = None\<rparr>;
          query = (case q_tag ps of
                     Some t \<Rightarrow> if t \<noteq> [] then query\<lparr>f_tags := Some t\<rparr> else query
                   | None \<Rightarrow> query);
          query = (case q_published ps of
                     Some s \<Rightarrow> query\<lparr>f_published := Some (s = ''true'')\<rparr>
                   | None \<Rightarrow> query)
      in (query, parseInt limit))"

text \<open>
  The store's \<open>find\<close>: a text against an array path matches when the array has that
  element, a boolean matches by equality; the sort is applied before the limit, and
  limit 0 means no limit. A negative limit \<open>-n\<close> asks for \<open>n\<close> documents in a single
  batch, which holds them all as long as \<open>n\<close> is at most 101. Documents with equal
  keys are left in collection order here (the store promises no order among them).
  The result is \<open>None\<close>, not interpreted, where the answer depends on the generation
  of the driver and the server: for a limit that is NaN (dropped by some drivers, sent on
  and refused by the server with others), infinite, below -101 or from 2^63 on.
\<close>

definition matches :: "filter_obj \<Rightarrow> post \<Rightarrow> bool" where
  "matches f p =
     ((case f_tags f of None \<Rightarrow> True | Some t \<Rightarrow> t \<in> set (tags p)) \<and>
      (case f_published f of None \<Rightarrow> True | Some v \<Rightarrow> published p = v))"

definition find_posts :: "filter_obj \<Rightarrow> jsnum \<Rightarrow> post list \<Rightarrow> post list option" where
  "find_posts f n_limit coll =
     (let ordered = sort_key (\<lambda>p. - createdAt p) (filter (matches f) coll)
      in case n_limit of
           Num r \<Rightarrow>
             (let n = \<lfloor>r\<rfloor>
              in if r \<noteq> of_int n \<or> n < - 101 \<or> 2 ^ 63 \<le> n then None
                 else if n = 0 then Some ordered
                 else Some (take (nat \<bar>n\<bar>) ordered))
         | _ \<Rightarrow> None)"

definition list_posts :: "list_params \<Rightarrow> post list \<Rightarrow> response option" where
  "list_posts ps coll =
     (case build_query ps of
        (qry, n) \<Rightarrow>
          (case find_posts qry n coll of
             None \<Rightarrow> None
           | Some posts \<Rightarrow>
               Some ((respond 200 True)
                       \<lparr>count := Some (length posts), data := Some (PostDocs posts)\<rparr>)))"

text \<open>
  The selection a list request asks for, as a predicate on posts: the tag, when given
  and not empty, is among the post's tags, and the published flag, when given, equals
  the comparison of the text with \<open>true\<close>.
\<close>

definition selected :: "list_params \<Rightarrow> post \<Rightarrow> bool" where
  "selected ps p =
     ((case q_tag ps of None \<Rightarrow> True | Some t \<Rightarrow> t = [] \<or> t \<in> set (tags p)) \<and>
      (case q_published ps of None \<Rightarrow> True | Some s \<Rightarrow> published p = (s = ''true'')))"

subsection \<open>Search (lines 172-216)\<close>













subsection \<open>Stats (lines 220-244)\<close>






subsection \<open>The service as a state machine\<close>

datatype request =
    CreateReq nat int post_body
  | ListReq list_params
  | LikeReq string
  | CommentReq int string comment_body
  | SearchReq string
  | StatsReq

fun step :: "(string \<Rightarrow> nat option) \<Rightarrow> request \<Rightarrow> post list \<Rightarrow> post list" where
  "step cast (CreateReq gen now b) coll = snd (create_post cast gen now b coll)"
| "step cast (LikeReq s) coll = snd (like_post cast s coll)"
| "step cast (CommentReq now s b) coll = snd (add_comment cast now s b coll)"
| "step cast (ListReq ps) coll = coll"
| "step cast (SearchReq q) coll = coll"
| "step cast StatsReq coll = coll"

definition run :: "(string \<Rightarrow> nat option) \<Rightarrow> request list \<Rightarrow> post list \<Rightarrow> post list" where
  "run cast rs coll = fold (step cast) rs coll"

subsection \<open>Notions used in the statements\<close>

text \<open>The decimal numeral of a number, to state what \<open>parseInt\<close> reads.\<close>

fun decimal :: "nat \<Rightarrow> string" where
  "decimal n =
     (if n < 10 then [char_of (48 + n)]
      else decimal (n div 10) @ [char_of (48 + n mod 10)])"

declare decimal.simps [simp del]


text \<open>
  The cast of a text to a document id in the examples: the 24 hexadecimal digits of an
  id, read as a number. Every generation of the object mapper accepts these and
  refuses a text that has neither 24 nor 12 characters.
\<close>

definition castObjectId :: "string \<Rightarrow> nat option" where
  "castObjectId s =
     (if length s = 24 \<and> list_all (is_digit 16) s then Some (digits_value 16 s) else None)"

subsection \<open>Sample data\<close>

definition demo_id :: string where
  "demo_id = ''000000000000000000000001''"

definition demo_post :: post where
  "demo_post = \<lparr>post_id = 1, title = ''Hello'', content = ''First post'', author = ''ann'',
     tags = [''x''], likes = 3, comments = [], published = True, createdAt = 100\<rparr>"

definition demo_body :: post_body where
  "demo_body = \<lparr>b_id = None, b_title = Some ''  Hello '', b_content = Some ''First post'',
     b_author = Some ''ann'', b_tags = None, b_likes = None, b_comments = None,
     b_published = None, b_createdAt = None\<rparr>"

definition demo_requests :: "request list" where
  "demo_requests =
     [CreateReq 1 5 (demo_body\<lparr>b_likes := Some 2\<rparr>), LikeReq demo_id,
      CommentReq 6 demo_id \<lparr>cb_text = Some ''hi'', cb_user = None\<rparr>]"

definition no_params :: list_params where
  "no_params = \<lparr>q_tag = None, q_published = None, q_limit = None\<rparr>"

definition demo_draft :: post where
  "demo_draft = \<lparr>post_id = 2, title = ''Notes'', content = ''a.c is not abc'', author = ''bob'',
     tags = [''y''], likes = 0, comments = [], published = False, createdAt = 200\<rparr>"


section \<open>Properties\<close>

subsection \<open>Numbers, findByIdAndUpdate, Like and Comment\<close>

lemma bitlen_le: "n < 2 ^ k \<Longrightarrow> bitlen n \<le> k"
proof (induction k arbitrary: n)
  case 0
  then show ?case by (simp add: bitlen.simps [of 0])
next
  case (Suc k)
  show ?case
  proof (cases "n = 0")
    case True
    then show ?thesis by (simp add: bitlen.simps [of 0])
  next
    case False
    from Suc.prems have "n div 2 < 2 ^ k" by simp
    from Suc.IH [OF this] False show ?thesis by (simp add: bitlen.simps [of n])
  qed
qed

lemma bitlen_1: "bitlen (Suc 0) = 1"
  by (simp add: bitlen.simps [of "Suc 0"] bitlen.simps [of 0])

lemma round_even_int: "round_even (of_int j) = j"
  by (simp add: round_even_def)

lemma quotient_of_of_int: "quotient_of (of_int n) = (n, 1)"
  using quotient_of_int [of n] by (simp add: Rat.of_int_def)

lemma nearest_double_pos_int:
  assumes "0 < n" and "n < 2 ^ 53"
  shows "nearest_double (of_int n) = Num (of_int n)"
proof -
  have "nat n < 2 ^ 53" using assms by (simp add: nat_less_iff)
  then have bl: "bitlen (nat n) \<le> 53" by (rule bitlen_le)
  define e where "e = ilog2 (of_int n)"
  have "e \<le> int (bitlen (nat n)) - 1"
    by (simp add: e_def ilog2_def quotient_of_of_int bitlen_1 Let_def)
  with bl have e: "e \<le> 52" by simp
  define s where "s = max (e - 52) (- 1074)"
  from e have s: "s \<le> 0" "- 1074 \<le> s" by (simp_all add: s_def)
  define k where "k = nat (- s)"
  have p: "pow2 s = 1 / 2 ^ k"
    using s by (cases "s = 0") (simp_all add: pow2_def k_def)
  have q: "of_int n / pow2 s = (of_int (n * 2 ^ k) :: rat)" by (simp add: p)
  have m: "round_even (of_int n / pow2 s) = n * 2 ^ k"
    unfolding q by (rule round_even_int)
  have v: "of_int (n * 2 ^ k) * pow2 s = (of_int n :: rat)" by (simp add: p)
  have "(of_int n :: rat) < 2 ^ 53" using assms(2) by (metis of_int_less_iff of_int_numeral of_int_power)
  also have "\<dots> \<le> 2 ^ 1024" by (rule power_increasing) simp_all
  finally have big: "\<not> pow2 1024 \<le> (of_int n :: rat)" by (simp add: pow2_def)
  have nz: "(of_int n :: rat) \<noteq> 0" "\<bar>of_int n :: rat\<bar> = of_int n" "(0::rat) < of_int n"
    using assms(1) by simp_all
  show ?thesis
    unfolding nearest_double_def Let_def nz(2) e_def [symmetric] s_def [symmetric] m v
    using nz big by simp
qed

lemma nearest_double_nat: "n < 2 ^ 53 \<Longrightarrow> nearest_double (of_nat n) = Num (of_nat n)"
proof (cases "n = 0")
  case True
  then show ?thesis by (simp add: nearest_double_def)
next
  case False
  assume "n < 2 ^ 53"
  with False have "0 < int n" "int n < 2 ^ 53" by (simp_all add: of_nat_less_numeral_power_cancel_iff)
  from nearest_double_pos_int [OF this] show ?thesis by simp
qed

lemma findByIdAndUpdate_missing:
  "findById i coll = None \<Longrightarrow> findByIdAndUpdate i f coll = (None, coll)"
  by (induction coll) (auto simp: findById_def split: if_splits)

lemma findByIdAndUpdate_present:
  "findById i coll = Some p \<Longrightarrow> fst (findByIdAndUpdate i f coll) = Some (f p)"
  by (induction coll) (auto simp: findById_def split: if_splits prod.splits)

lemma findByIdAndUpdate_lookup:
  "findById i coll = Some p \<Longrightarrow> post_id (f p) = i \<Longrightarrow>
   findById i (snd (findByIdAndUpdate i f coll)) = Some (f p)"
  by (induction coll) (auto simp: findById_def split: if_splits prod.splits)

lemma findByIdAndUpdate_others:
  "j \<noteq> i \<Longrightarrow> (\<And>p. post_id (f p) = post_id p) \<Longrightarrow>
   findById j (snd (findByIdAndUpdate i f coll)) = findById j coll"
  by (induction coll) (auto simp: findById_def split: if_splits prod.splits)

lemma findByIdAndUpdate_length:
  "length (snd (findByIdAndUpdate i f coll)) = length coll"
  by (induction coll) (auto split: prod.splits)

lemma findByIdAndUpdate_result:
  "findById i coll = Some p \<Longrightarrow> post_id (f p) = i \<Longrightarrow>
   \<exists>coll'. findByIdAndUpdate i f coll = (Some (f p), coll') \<and> findById i coll' = Some (f p)"
  using findByIdAndUpdate_present [of i coll p f] findByIdAndUpdate_lookup [of i coll p f]
  by (cases "findByIdAndUpdate i f coll") simp

lemma findById_id: "findById i coll = Some p \<Longrightarrow> post_id p = i"
  by (auto simp: findById_def find_Some_iff)


lemma castObjectId_demo: "castObjectId demo_id = Some 1"
  by (simp add: castObjectId_def demo_id_def is_digit_def digit_value_def digits_value_def)

lemma castObjectId_short: "castObjectId ''2'' = None" "castObjectId ''abc'' = None"
  "castObjectId ''no-such-id'' = None"
  by (simp_all add: castObjectId_def)

lemma castObjectId_other: "castObjectId ''000000000000000000000002'' = Some 2"
  by (simp add: castObjectId_def is_digit_def digit_value_def digits_value_def)

lemma findById_demo: "findById 1 [demo_post] = Some demo_post" "findById 2 [demo_post] = None"
  by (simp_all add: findById_def demo_post_def)

lemma demo_post_fields: "likes demo_post = 3" "comments demo_post = []"
  by (simp_all add: demo_post_def)




text \<open>
  Claim C8, as stated, fails: on the path segment \<open>abc\<close>, which names no document,
  the Like call is answered 500, not 404.
\<close>

theorem like_frame_counterexample:
  "findById 0 [] = None \<and> status (fst (like_post castObjectId ''abc'' [])) = 500"
  by (simp add: like_post_def castObjectId_short respond_def findById_def)

text \<open>
  Claim C8, amended. A Like call on a path segment that casts to an id that no document
  has answers 404, and one on a path segment that does not cast answers 500; either way
  the collection is returned as it was: no document is added and none is changed.
\<close>

theorem like_missing_frame:
  "(cast s = Some i \<and> findById i coll = None \<longrightarrow>
      status (fst (like_post cast s coll)) = 404 \<and> snd (like_post cast s coll) = coll) \<and>
   (cast s = None \<longrightarrow>
      status (fst (like_post cast s coll)) = 500 \<and> snd (like_post cast s coll) = coll)"
  by (simp add: like_post_def findByIdAndUpdate_missing respond_def)

theorem like_missing_frame_witness:
  "status (fst (like_post castObjectId ''000000000000000000000002'' [demo_post])) = 404 \<and>
   snd (like_post castObjectId ''000000000000000000000002'' [demo_post]) = [demo_post] \<and>
   status (fst (like_post castObjectId ''abc'' [demo_post])) = 500 \<and>
   snd (like_post castObjectId ''abc'' [demo_post]) = [demo_post]"
  using like_missing_frame [of castObjectId "''000000000000000000000002''" 2 "[demo_post]"]
    like_missing_frame [of castObjectId "''abc''" 2 "[demo_post]"]
  by (simp add: castObjectId_other castObjectId_short findById_demo)




text \<open>
  Claim C10. The Comment handler does not validate its body: for the id of an existing
  post and any body, with or without \<open>text\<close> and \<open>user\<close>, the answer has status
  200 and \<open>success\<close> true, the entry built from the body (a missing field stays
  absent) is appended to the post's comments, and the answer carries that entry.
\<close>

theorem comment_no_validation:
  "cast s = Some i \<and> findById i coll = Some p \<longrightarrow>
   fst (add_comment cast now s b coll) =
     \<lparr>status = 200, success = True,
      data = Some (CommentDoc \<lparr>c_text = cb_text b, c_user = cb_user b, c_date = now\<rparr>),
      error = None, message = None, count = None, query = None\<rparr> \<and>
   findById i (snd (add_comment cast now s b coll)) =
     Some (p\<lparr>comments := comments p @
             [\<lparr>c_text = cb_text b, c_user = cb_user b, c_date = now\<rparr>]\<rparr>)"
proof
  assume a: "cast s = Some i \<and> findById i coll = Some p"
  then have h: "findById i coll = Some p" and c: "cast s = Some i" by simp_all
  let ?c = "\<lparr>c_text = cb_text b, c_user = cb_user b, c_date = now\<rparr>"
  let ?f = "\<lambda>p. p\<lparr>comments := comments p @ [?c]\<rparr>"
  from h have "post_id (?f p) = i" by (simp add: findById_id)
  from findByIdAndUpdate_result [where f = ?f, OF h this] obtain coll' where
    r: "findByIdAndUpdate i ?f coll = (Some (?f p), coll')" and l: "findById i coll' = Some (?f p)"
    by blast
  from r l c show "fst (add_comment cast now s b coll) =
     \<lparr>status = 200, success = True, data = Some (CommentDoc ?c),
      error = None, message = None, count = None, query = None\<rparr> \<and>
   findById i (snd (add_comment cast now s b coll)) = Some (?f p)"
    by (simp add: add_comment_def respond_def)
qed

theorem comment_no_validation_witness:
  "fst (add_comment castObjectId 7 demo_id \<lparr>cb_text = None, cb_user = None\<rparr> [demo_post]) =
     \<lparr>status = 200, success = True,
      data = Some (CommentDoc \<lparr>c_text = None, c_user = None, c_date = 7\<rparr>),
      error = None, message = None, count = None, query = None\<rparr> \<and>
   findById 1 (snd (add_comment castObjectId 7 demo_id \<lparr>cb_text = None, cb_user = None\<rparr>
      [demo_post])) =
     Some (demo_post\<lparr>comments := [\<lparr>c_text = None, c_user = None, c_date = 7\<rparr>]\<rparr>)"
proof -
  have h1: "castObjectId demo_id = Some 1 \<and> findById 1 [demo_post] = Some demo_post"
    by (rule conjI [OF castObjectId_demo findById_demo(1)])
  note a = comment_no_validation [of castObjectId demo_id 1 "[demo_post]" demo_post 7
      "\<lparr>cb_text = None, cb_user = None\<rparr>", rule_format, OF h1]
  from a show ?thesis by (simp add: demo_post_fields)
qed

subsection \<open>Stats\<close>

lemma round_core:
  assumes "0 < n" and "n < 2 ^ 53"
  shows "of_int (round_even (of_int n / pow2 (max (ilog2 (of_int n) - 52) (- 1074)))) *
           pow2 (max (ilog2 (of_int n) - 52) (- 1074)) = (of_int n :: rat)"
proof -
  have "nat n < 2 ^ 53" using assms by (simp add: nat_less_iff)
  then have bl: "bitlen (nat n) \<le> 53" by (rule bitlen_le)
  define e where "e = ilog2 (of_int n)"
  have "e \<le> int (bitlen (nat n)) - 1"
    by (simp add: e_def ilog2_def quotient_of_of_int bitlen_1 Let_def)
  with bl have e: "e \<le> 52" by simp
  define s where "s = max (e - 52) (- 1074)"
  from e have s: "s \<le> 0" by (simp add: s_def)
  define k where "k = nat (- s)"
  have p: "pow2 s = 1 / 2 ^ k"
    using s by (cases "s = 0") (simp_all add: pow2_def k_def)
  have q: "of_int n / pow2 s = (of_int (n * 2 ^ k) :: rat)" by (simp add: p)
  have m: "round_even (of_int n / pow2 s) = n * 2 ^ k"
    unfolding q by (rule round_even_int)
  have "of_int (n * 2 ^ k) * pow2 s = (of_int n :: rat)" by (simp add: p)
  then show ?thesis unfolding e_def [symmetric] s_def [symmetric] m .
qed

lemma below_overflow: "n < 2 ^ 53 \<Longrightarrow> \<not> pow2 1024 \<le> (of_int n :: rat)"
proof -
  assume "n < 2 ^ 53"
  then have "(of_int n :: rat) < 2 ^ 53" by (metis of_int_less_iff of_int_numeral of_int_power)
  also have "\<dots> \<le> 2 ^ 1024" by (rule power_increasing) simp_all
  finally show ?thesis by (simp add: pow2_def)
qed

lemma nearest_double_int:
  assumes "\<bar>n\<bar> < 2 ^ 53"
  shows "nearest_double (of_int n) = Num (of_int n)"
proof (cases "n = 0")
  case True
  then show ?thesis by (simp add: nearest_double_def)
next
  case False
  then have pos: "0 < \<bar>n\<bar>" by simp
  have a: "\<bar>of_int n :: rat\<bar> = of_int \<bar>n\<bar>" by simp
  have nz: "(of_int n :: rat) \<noteq> 0" using False by simp
  show ?thesis
    unfolding nearest_double_def Let_def a round_core [OF pos assms]
    using nz below_overflow [OF assms] by (cases "0 < n") simp_all
qed










subsection \<open>Create\<close>

lemma trim_plain: "list_all (\<lambda>c. \<not> js_whitespace c) s \<Longrightarrow> trim s = s"
proof -
  assume a: "list_all (\<lambda>c. \<not> js_whitespace c) s"
  then have 1: "dropWhile js_whitespace s = s"
    by (cases s) simp_all
  from a have "list_all (\<lambda>c. \<not> js_whitespace c) (rev s)" by (simp add: list_all_iff)
  then have "dropWhile js_whitespace (rev s) = rev s"
    by (cases "rev s") simp_all
  with 1 show ?thesis by (simp add: trim_def)
qed

lemma trim_demo: "trim ''  Hello '' = ''Hello''"
  by (simp add: trim_def js_whitespace_def)

text \<open>
  Claim C5, as stated, fails: a body that has all three required paths and nothing else
  is refused when its title is longer than 100 characters.
\<close>

theorem create_long_title_counterexample:
  "status (fst (create_post castObjectId 7 5
     \<lparr>b_id = None, b_title = Some (replicate 101 CHR ''a''), b_content = Some ''First post'',
      b_author = Some ''ann'', b_tags = None, b_likes = None, b_comments = None,
      b_published = None, b_createdAt = None\<rparr> [])) = 400"
proof -
  have "trim (replicate 101 CHR ''a'') = replicate 101 CHR ''a''"
    by (rule trim_plain) (simp add: list_all_iff js_whitespace_def)
  then show ?thesis by (simp add: create_post_def respond_def)
qed

text \<open>
  Claim C5, amended. A body without \<open>title\<close>, \<open>content\<close> or \<open>author\<close> is answered
  with 400 and nothing is stored. A body with all three, each non-empty, the title after
  trimming and of at most 100 characters then, and without \<open>_id\<close>, tags, likes,
  comments and published, is answered with status 201, \<open>success\<close> true and the stored
  document: likes 0, published false, no comments, no tags, and the generated id,
  provided no document of the collection has that id already.
\<close>

theorem create_validity:
  "(b_title b = None \<or> b_content b = None \<or> b_author b = None \<longrightarrow>
      status (fst (create_post cast gen now b coll)) = 400 \<and>
      snd (create_post cast gen now b coll) = coll) \<and>
   (b_id b = None \<and> b_title b = Some t \<and> b_content b = Some c \<and> b_author b = Some a \<and>
    trim t \<noteq> [] \<and> length (trim t) \<le> 100 \<and> c \<noteq> [] \<and> a \<noteq> [] \<and>
    b_tags b = None \<and> b_likes b = None \<and> b_comments b = None \<and> b_published b = None \<and>
    gen \<notin> post_id ` set coll \<longrightarrow>
      fst (create_post cast gen now b coll) =
        \<lparr>status = 201, success = True,
         data = Some (PostDoc
           \<lparr>post_id = gen, title = trim t, content = c, author = a, tags = [], likes = 0,
            comments = [], published = False,
            createdAt = (case b_createdAt b of None \<Rightarrow> now | Some d \<Rightarrow> d)\<rparr>),
         error = None, message = Some ''Post created successfully'', count = None,
         query = None\<rparr> \<and>
      snd (create_post cast gen now b coll) =
        coll @ [\<lparr>post_id = gen, title = trim t, content = c, author = a, tags = [], likes = 0,
                 comments = [], published = False,
                 createdAt = (case b_createdAt b of None \<Rightarrow> now | Some d \<Rightarrow> d)\<rparr>])"
proof (rule conjI)
  show "b_title b = None \<or> b_content b = None \<or> b_author b = None \<longrightarrow>
      status (fst (create_post cast gen now b coll)) = 400 \<and>
      snd (create_post cast gen now b coll) = coll"
    by (auto simp: create_post_def respond_def split: option.splits)
next
  show "b_id b = None \<and> b_title b = Some t \<and> b_content b = Some c \<and> b_author b = Some a \<and>
    trim t \<noteq> [] \<and> length (trim t) \<le> 100 \<and> c \<noteq> [] \<and> a \<noteq> [] \<and>
    b_tags b = None \<and> b_likes b = None \<and> b_comments b = None \<and> b_published b = None \<and>
    gen \<notin> post_id ` set coll \<longrightarrow>
      fst (create_post cast gen now b coll) =
        \<lparr>status = 201, success = True,
         data = Some (PostDoc
           \<lparr>post_id = gen, title = trim t, content = c, author = a, tags = [], likes = 0,
            comments = [], published = False,
            createdAt = (case b_createdAt b of None \<Rightarrow> now | Some d \<Rightarrow> d)\<rparr>),
         error = None, message = Some ''Post created successfully'', count = None,
         query = None\<rparr> \<and>
      snd (create_post cast gen now b coll) =
        coll @ [\<lparr>post_id = gen, title = trim t, content = c, author = a, tags = [], likes = 0,
                 comments = [], published = False,
                 createdAt = (case b_createdAt b of None \<Rightarrow> now | Some d \<Rightarrow> d)\<rparr>]"
    by (simp add: create_post_def Let_def respond_def)
qed

theorem create_validity_witness:
  "status (fst (create_post castObjectId 2 5 (demo_body\<lparr>b_author := None\<rparr>) [demo_post])) = 400 \<and>
   snd (create_post castObjectId 2 5 (demo_body\<lparr>b_author := None\<rparr>) [demo_post]) = [demo_post] \<and>
   fst (create_post castObjectId 2 5 demo_body [demo_post]) =
     \<lparr>status = 201, success = True,
      data = Some (PostDoc
        \<lparr>post_id = 2, title = ''Hello'', content = ''First post'', author = ''ann'', tags = [],
         likes = 0, comments = [], published = False, createdAt = 5\<rparr>),
      error = None, message = Some ''Post created successfully'', count = None, query = None\<rparr> \<and>
   snd (create_post castObjectId 2 5 demo_body [demo_post]) =
     [demo_post,
      \<lparr>post_id = 2, title = ''Hello'', content = ''First post'', author = ''ann'', tags = [],
       likes = 0, comments = [], published = False, createdAt = 5\<rparr>]"
proof -
  have h1: "b_title (demo_body\<lparr>b_author := None\<rparr>) = None \<or>
            b_content (demo_body\<lparr>b_author := None\<rparr>) = None \<or>
            b_author (demo_body\<lparr>b_author := None\<rparr>) = None" by simp
  have h2: "b_id demo_body = None \<and> b_title demo_body = Some ''  Hello '' \<and>
      b_content demo_body = Some ''First post'' \<and> b_author demo_body = Some ''ann'' \<and>
      trim ''  Hello '' \<noteq> [] \<and> length (trim ''  Hello '') \<le> 100 \<and> ''First post'' \<noteq> [] \<and>
      ''ann'' \<noteq> [] \<and> b_tags demo_body = None \<and> b_likes demo_body = None \<and>
      b_comments demo_body = None \<and> b_published demo_body = None \<and>
      2 \<notin> post_id ` set [demo_post]"
    by (simp add: demo_body_def trim_demo demo_post_def)
  note a = create_validity [where b = "demo_body\<lparr>b_author := None\<rparr>" and cast = castObjectId
      and gen = 2 and now = 5 and coll = "[demo_post]", THEN conjunct1, rule_format, OF h1]
  note b = create_validity [where b = demo_body and cast = castObjectId and gen = 2 and now = 5
      and coll = "[demo_post]", THEN conjunct2, rule_format, OF h2]
  have c: "b_createdAt demo_body = None" by (simp add: demo_body_def)
  from a b show ?thesis by (simp add: trim_demo c)
qed

subsection \<open>The likes counter over runs of the service\<close>

lemma findByIdAndUpdate_preserves:
  "\<forall>p \<in> set coll. P p \<Longrightarrow> (\<And>p. P p \<Longrightarrow> P (f p)) \<Longrightarrow>
   \<forall>p \<in> set (snd (findByIdAndUpdate i f coll)). P p"
  by (induction coll) (auto split: prod.splits)

lemma like_post_nonneg:
  "\<forall>p \<in> set coll. 0 \<le> likes p \<Longrightarrow> \<forall>p \<in> set (snd (like_post cast s coll)). 0 \<le> likes p"
proof (cases "cast s")
  case None
  assume "\<forall>p \<in> set coll. 0 \<le> likes p"
  with None show ?thesis by (simp add: like_post_def)
next
  case (Some i)
  assume "\<forall>p \<in> set coll. 0 \<le> likes p"
  then show ?thesis
    using findByIdAndUpdate_preserves [of coll "\<lambda>p. 0 \<le> likes p" "\<lambda>p. p\<lparr>likes := likes p + 1\<rparr>" i]
      Some
    by (auto simp: like_post_def split: prod.splits option.splits)
qed

lemma add_comment_nonneg:
  "\<forall>p \<in> set coll. 0 \<le> likes p \<Longrightarrow>
   \<forall>p \<in> set (snd (add_comment cast now s b coll)). 0 \<le> likes p"
proof (cases "cast s")
  case None
  assume "\<forall>p \<in> set coll. 0 \<le> likes p"
  with None show ?thesis by (simp add: add_comment_def)
next
  case (Some i)
  assume "\<forall>p \<in> set coll. 0 \<le> likes p"
  then show ?thesis
    using findByIdAndUpdate_preserves [of coll "\<lambda>p. 0 \<le> likes p"
      "\<lambda>p. p\<lparr>comments := comments p @ [\<lparr>c_text = cb_text b, c_user = cb_user b, c_date = now\<rparr>]\<rparr>" i]
      Some
    by (auto simp: add_comment_def Let_def split: prod.splits option.splits)
qed

lemma create_post_stores:
  "snd (create_post cast gen now b coll) = coll \<or>
   (\<exists>doc. snd (create_post cast gen now b coll) = coll @ [doc] \<and>
          likes doc = (case b_likes b of None \<Rightarrow> 0 | Some n \<Rightarrow> n))"
proof -
  obtain x where x: "(case b_id b of None \<Rightarrow> Some gen | Some s \<Rightarrow> cast s) = x" by simp
  show ?thesis
    unfolding create_post_def x
    by (cases "b_title b"; cases "b_content b"; cases "b_author b"; cases x)
      (simp_all add: Let_def)
qed

lemma create_post_nonneg:
  assumes "\<forall>p \<in> set coll. 0 \<le> likes p" and "\<And>n. b_likes b = Some n \<Longrightarrow> 0 \<le> n"
  shows "\<forall>p \<in> set (snd (create_post cast gen now b coll)). 0 \<le> likes p"
proof -
  have l: "0 \<le> (case b_likes b of None \<Rightarrow> 0 | Some n \<Rightarrow> n)"
    using assms(2) by (cases "b_likes b") simp_all
  from create_post_stores [of cast gen now b coll] show ?thesis
  proof
    assume "snd (create_post cast gen now b coll) = coll"
    with assms(1) show ?thesis by simp
  next
    assume "\<exists>doc. snd (create_post cast gen now b coll) = coll @ [doc] \<and>
          likes doc = (case b_likes b of None \<Rightarrow> 0 | Some n \<Rightarrow> n)"
    then obtain doc where "snd (create_post cast gen now b coll) = coll @ [doc]"
      and "likes doc = (case b_likes b of None \<Rightarrow> 0 | Some n \<Rightarrow> n)" by blast
    with assms(1) l show ?thesis by simp
  qed
qed

lemma step_nonneg:
  assumes "\<forall>p \<in> set coll. 0 \<le> likes p"
    and "\<forall>gen now b n. r = CreateReq gen now b \<longrightarrow> b_likes b = Some n \<longrightarrow> 0 \<le> n"
  shows "\<forall>p \<in> set (step cast r coll). 0 \<le> likes p"
proof (cases r)
  case (CreateReq gen now b)
  from assms(2) CreateReq have "\<And>n. b_likes b = Some n \<Longrightarrow> 0 \<le> n" by blast
  from create_post_nonneg [OF assms(1) this] have
    "\<forall>p \<in> set (snd (create_post cast gen now b coll)). 0 \<le> likes p" .
  then show ?thesis unfolding CreateReq step.simps .
next
  case (LikeReq i)
  from like_post_nonneg [OF assms(1)] show ?thesis unfolding LikeReq step.simps .
next
  case (CommentReq now i b)
  from add_comment_nonneg [OF assms(1)] show ?thesis unfolding CommentReq step.simps .
next
  case (ListReq ps)
  from assms(1) show ?thesis unfolding ListReq step.simps .
next
  case (SearchReq q)
  from assms(1) show ?thesis unfolding SearchReq step.simps .
next
  case StatsReq
  from assms(1) show ?thesis unfolding StatsReq step.simps .
qed

lemma run_demo_requests: "map likes (run castObjectId demo_requests []) = [3]"
  by (simp add: demo_requests_def run_def create_post_def like_post_def add_comment_def
      demo_body_def trim_demo castObjectId_demo Let_def)

text \<open>
  Claim C9, as stated, fails: the schema puts no lower bound on \<open>likes\<close>, and a Create
  whose body supplies \<open>likes = -5\<close> stores a post with that value.
\<close>

theorem create_negative_likes_counterexample:
  "map likes (run castObjectId [CreateReq 1 5 (demo_body\<lparr>b_likes := Some (- 5)\<rparr>)] []) = [- 5]"
  by (simp add: run_def create_post_def demo_body_def trim_demo Let_def)

text \<open>
  Claim C9, amended. Starting from a collection without negative likes (the empty one,
  say), after any sequence of requests in which no Create body supplies a negative
  \<open>likes\<close>, no post has negative likes.
\<close>

theorem likes_nonneg_invariant:
  assumes "\<forall>gen now b n. CreateReq gen now b \<in> set rs \<longrightarrow> b_likes b = Some n \<longrightarrow> 0 \<le> n"
    and "\<forall>p \<in> set coll. 0 \<le> likes p"
  shows "\<forall>p \<in> set (run cast rs coll). 0 \<le> likes p"
  using assms
proof (induction rs arbitrary: coll)
  case Nil
  then show ?case unfolding run_def fold.simps by simp
next
  case (Cons r rs)
  have here: "\<forall>gen now b n. r = CreateReq gen now b \<longrightarrow> b_likes b = Some n \<longrightarrow> 0 \<le> n"
    using Cons.prems(1) by (meson list.set_intros(1))
  have later: "\<forall>gen now b n. CreateReq gen now b \<in> set rs \<longrightarrow> b_likes b = Some n \<longrightarrow> 0 \<le> n"
    using Cons.prems(1) by (meson list.set_intros(2))
  have "\<forall>p \<in> set (step cast r coll). 0 \<le> likes p"
    using Cons.prems(2) here by (rule step_nonneg)
  with later have "\<forall>p \<in> set (run cast rs (step cast r coll)). 0 \<le> likes p"
    by (rule Cons.IH)
  then show ?case unfolding run_def by simp
qed

theorem likes_nonneg_invariant_witness:
  "map likes (run castObjectId demo_requests []) = [3] \<and>
   list_all (\<lambda>p. 0 \<le> likes p) (run castObjectId demo_requests [])"
proof -
  have h: "\<forall>gen now b n. CreateReq gen now b \<in> set demo_requests \<longrightarrow> b_likes b = Some n \<longrightarrow> 0 \<le> n"
    by (auto simp: demo_requests_def demo_body_def)
  have e: "\<forall>p \<in> set ([] :: post list). 0 \<le> likes p" by simp
  from likes_nonneg_invariant [OF h e] have
    "list_all (\<lambda>p. 0 \<le> likes p) (run castObjectId demo_requests [])"
    by (simp add: list_all_iff)
  with run_demo_requests show ?thesis by simp
qed

subsection \<open>List\<close>

lemma top_k:
  fixes f :: "'a \<Rightarrow> int"
  shows "sorted (map f (take k (sort_key f xs)))"
    and "mset (take k (sort_key f xs)) \<subseteq># mset xs"
    and "length (take k (sort_key f xs)) = min k (length xs)"
    and "\<forall>a \<in># mset xs - mset (take k (sort_key f xs)).
           \<forall>b \<in> set (take k (sort_key f xs)). f b \<le> f a"
proof -
  let ?S = "sort_key f xs"
  have split: "?S = take k ?S @ drop k ?S" by simp
  have s: "sorted (map f ?S)" by (rule sorted_sort_key)
  then have "sorted (map f (take k ?S) @ map f (drop k ?S))"
    by (simp only: map_append [symmetric] append_take_drop_id)
  then have parts: "sorted (map f (take k ?S))"
    "\<forall>x \<in> set (take k ?S). \<forall>y \<in> set (drop k ?S). f x \<le> f y"
    by (auto simp: sorted_append)
  show "sorted (map f (take k ?S))" by (rule parts(1))
  have m: "mset xs = mset (take k ?S) + mset (drop k ?S)"
    by (metis split mset_append mset_sort)
  then show "mset (take k ?S) \<subseteq># mset xs" by simp
  show "length (take k ?S) = min k (length xs)" by (simp add: min.commute)
  from m have "mset xs - mset (take k ?S) = mset (drop k ?S)" by simp
  with parts(2) show "\<forall>a \<in># mset xs - mset (take k ?S). \<forall>b \<in> set (take k ?S). f b \<le> f a"
    by auto
qed

lemma is_digit_10: "is_digit 10 c \<longleftrightarrow> 48 \<le> (of_char c :: nat) \<and> (of_char c :: nat) \<le> 57"
  by (auto simp: is_digit_def digit_value_def Let_def)

lemma digit_not_space: "is_digit 10 c \<Longrightarrow> \<not> js_whitespace c"
  by (auto simp: is_digit_10 js_whitespace_def)

lemma digit_not_mark:
  "is_digit 10 c \<Longrightarrow> c \<noteq> CHR ''-'' \<and> c \<noteq> CHR ''+'' \<and> c \<noteq> CHR ''x'' \<and> c \<noteq> CHR ''X''"
  by (auto simp: is_digit_10)

lemma parseInt_digits:
  assumes "S \<noteq> []" and "\<forall>c \<in> set S. is_digit 10 c"
  shows "parseInt S = nearest_double (of_int (int (digits_value 10 S)))"
proof -
  from assms obtain c cs where S: "S = c # cs" by (cases S) auto
  with assms(2) have c: "is_digit 10 c" by simp
  have ws: "dropWhile js_whitespace S = S"
    using c S by (simp add: digit_not_space)
  have sign: "take 1 S \<noteq> ''-''" "take 1 S \<noteq> ''+''"
    using c S digit_not_mark [of c] by auto
  have "CHR ''x'' \<notin> set (take 2 S)" "CHR ''X'' \<notin> set (take 2 S)"
    using assms(2) digit_not_mark by (blast dest: in_set_takeD)+
  then have hex: "take 2 S \<noteq> ''0x''" "take 2 S \<noteq> ''0X''"
    by auto
  have run: "takeWhile (is_digit 10) S = S"
    using assms(2) by (simp add: takeWhile_eq_all_conv)
  show ?thesis
    unfolding parseInt_def Let_def ws using sign hex assms(1) by (simp add: run)
qed

lemma digit_char: "d < 10 \<Longrightarrow> is_digit 10 (char_of (48 + d)) \<and> digit_value (char_of (48 + d)) = Some d"
  by (simp add: is_digit_def digit_value_def Let_def)

lemma decimal_digits: "\<forall>c \<in> set (decimal n). is_digit 10 c"
proof (induction n rule: decimal.induct)
  case (1 n)
  show ?case
  proof (cases "n < 10")
    case True
    then show ?thesis using digit_char [of n] by (simp add: decimal.simps [of n])
  next
    case False
    with 1 have "\<forall>c \<in> set (decimal (n div 10)). is_digit 10 c" by simp
    moreover have "is_digit 10 (char_of (48 + n mod 10))" using digit_char [of "n mod 10"] by simp
    ultimately show ?thesis using False by (simp add: decimal.simps [of n])
  qed
qed

lemma decimal_nonempty: "decimal n \<noteq> []"
  by (simp add: decimal.simps [of n])

lemma digits_value_snoc:
  "digits_value R (z @ [c]) = digits_value R z * R + (case digit_value c of None \<Rightarrow> 0 | Some d \<Rightarrow> d)"
  by (simp add: digits_value_def)

lemma digits_value_decimal: "digits_value 10 (decimal n) = n"
proof (induction n rule: decimal.induct)
  case (1 n)
  show ?case
  proof (cases "n < 10")
    case True
    then show ?thesis using digit_char [of n] by (simp add: decimal.simps [of n] digits_value_def)
  next
    case False
    with 1 have "digits_value 10 (decimal (n div 10)) = n div 10" by simp
    then show ?thesis
      using False digit_char [of "n mod 10"]
      by (simp add: decimal.simps [of n] digits_value_snoc)
  qed
qed

lemma parseInt_decimal: "n < 2 ^ 53 \<Longrightarrow> parseInt (decimal n) = Num (of_nat n)"
proof -
  assume "n < 2 ^ 53"
  then have "\<bar>int n\<bar> < 2 ^ 53" by (simp add: of_nat_less_numeral_power_cancel_iff)
  from nearest_double_int [OF this]
    parseInt_digits [OF decimal_nonempty decimal_digits, of n]
  show ?thesis by (simp add: digits_value_decimal)
qed

lemma parseInt_no_digit:
  "\<not> js_whitespace c \<Longrightarrow> c \<noteq> CHR ''-'' \<Longrightarrow> c \<noteq> CHR ''+'' \<Longrightarrow> \<not> is_digit 10 c \<Longrightarrow>
   parseInt (c # cs) = NaN"
proof -
  assume a: "\<not> js_whitespace c" "c \<noteq> CHR ''-''" "c \<noteq> CHR ''+''" "\<not> is_digit 10 c"
  have z: "c \<noteq> CHR ''0''" using a(4) by (auto simp: is_digit_10)
  have d16: "\<not> is_digit 16 c \<or> take 2 (c # cs) \<noteq> ''0x'' \<and> take 2 (c # cs) \<noteq> ''0X''"
    using z by (cases cs) auto
  show ?thesis
    unfolding parseInt_def Let_def using a z by (cases cs) auto
qed

lemma parseInt_empty: "parseInt [] = NaN"
  by (simp add: parseInt_def)

lemma parseInt_default: "parseInt ''10'' = Num 10"
proof -
  have "parseInt ''10'' = nearest_double (of_int (int (digits_value 10 ''10'')))"
    by (rule parseInt_digits) (simp_all add: is_digit_def digit_value_def)
  also have "digits_value 10 ''10'' = 10" by (simp add: digits_value_def digit_value_def)
  also have "nearest_double (of_int (int 10)) = Num (of_int (int 10))"
    by (rule nearest_double_int) simp
  finally show ?thesis by simp
qed

lemma build_query_limit:
  "snd (build_query ps) = parseInt (case q_limit ps of None \<Rightarrow> ''10'' | Some s \<Rightarrow> s)"
  by (simp add: build_query_def Let_def)

lemma matches_build_query: "matches (fst (build_query ps)) p = selected ps p"
  by (auto simp: build_query_def Let_def matches_def selected_def split: option.splits)

lemma list_posts_in_range:
  assumes "snd (build_query ps) = Num (of_int n)" and "- 101 \<le> n" and "n < 2 ^ 63"
  shows "list_posts ps coll =
           Some \<lparr>status = 200, success = True,
             data = Some (PostDocs
               (take (if n = 0 then length coll else nat \<bar>n\<bar>)
                  (sort_key (\<lambda>p. - createdAt p) (filter (selected ps) coll)))),
             error = None, message = None,
             count = Some (length
               (take (if n = 0 then length coll else nat \<bar>n\<bar>)
                  (sort_key (\<lambda>p. - createdAt p) (filter (selected ps) coll)))),
             query = None\<rparr>"
proof -
  obtain f where bq: "build_query ps = (f, Num (of_int n))"
    using assms(1) by (cases "build_query ps") simp
  then have "matches f = selected ps"
    using matches_build_query [of ps] by (intro ext) simp
  then show ?thesis
    using assms(2,3) bq by (simp add: list_posts_def find_posts_def Let_def respond_def)
qed

lemma newest_first:
  "sorted (map (\<lambda>p. - createdAt p) xs) \<Longrightarrow> sorted_wrt (\<lambda>a b. createdAt b \<le> createdAt a) xs"
  by (simp add: sorted_map)

lemma decimal_25: "decimal 25 = ''25''"
  by code_simp

lemma parseInt_minus_2: "parseInt ''-2'' = Num (of_int (- 2))"
proof -
  have "parseInt ''-2'' = nearest_double (of_int (- 2))"
    by (simp add: parseInt_def js_whitespace_def is_digit_def digit_value_def digits_value_def)
  also have "\<dots> = Num (of_int (- 2))" by (rule nearest_double_int) simp
  finally show ?thesis .
qed

text \<open>
  Claim C1, as stated, fails: a limit text without a leading integer is not replaced by
  the default 10; \<open>parseInt\<close> gives NaN and that is what the store is handed.
\<close>

theorem limit_unparsable_counterexample:
  "snd (build_query (no_params\<lparr>q_limit := Some ''abc''\<rparr>)) = NaN \<and>
   snd (build_query (no_params\<lparr>q_limit := Some ''abc''\<rparr>)) \<noteq> Num 10"
  by (simp add: build_query_limit no_params_def parseInt_def js_whitespace_def is_digit_def
      digit_value_def)

text \<open>
  Claim C1, amended. The limit is 10 when the parameter is absent; the decimal numeral
  of a number below 2^53 is read as that number; the empty text, and a text whose first
  character is neither white space, a sign nor a decimal digit, are read as NaN.
  Whatever the tag and published texts, a request whose limit is read as an integer from
  -101 up to below 2^63 is answered with status 200 and \<open>success\<close> true.
\<close>

theorem limit_parsing:
  "(q_limit ps = None \<longrightarrow> snd (build_query ps) = Num 10) \<and>
   (q_limit ps = Some (decimal n) \<and> n < 2 ^ 53 \<longrightarrow> snd (build_query ps) = Num (of_nat n)) \<and>
   (q_limit ps = Some [] \<longrightarrow> snd (build_query ps) = NaN) \<and>
   (q_limit ps = Some (c # cs) \<and> \<not> js_whitespace c \<and> c \<noteq> CHR ''-'' \<and> c \<noteq> CHR ''+'' \<and>
    \<not> is_digit 10 c \<longrightarrow> snd (build_query ps) = NaN) \<and>
   (snd (build_query ps) = Num (of_int m) \<and> - 101 \<le> m \<and> m < 2 ^ 63 \<longrightarrow>
      (\<exists>r. list_posts ps coll = Some r \<and> status r = 200 \<and> success r))"
proof (intro conjI)
  show "q_limit ps = None \<longrightarrow> snd (build_query ps) = Num 10"
    by (simp add: build_query_limit parseInt_default)
  show "q_limit ps = Some (decimal n) \<and> n < 2 ^ 53 \<longrightarrow> snd (build_query ps) = Num (of_nat n)"
    by (simp add: build_query_limit parseInt_decimal)
  show "q_limit ps = Some [] \<longrightarrow> snd (build_query ps) = NaN"
    by (simp add: build_query_limit parseInt_empty)
  show "q_limit ps = Some (c # cs) \<and> \<not> js_whitespace c \<and> c \<noteq> CHR ''-'' \<and> c \<noteq> CHR ''+'' \<and>
    \<not> is_digit 10 c \<longrightarrow> snd (build_query ps) = NaN"
    by (simp add: build_query_limit parseInt_no_digit)
  show "snd (build_query ps) = Num (of_int m) \<and> - 101 \<le> m \<and> m < 2 ^ 63 \<longrightarrow>
      (\<exists>r. list_posts ps coll = Some r \<and> status r = 200 \<and> success r)"
  proof
    assume a: "snd (build_query ps) = Num (of_int m) \<and> - 101 \<le> m \<and> m < 2 ^ 63"
    then have "snd (build_query ps) = Num (of_int m)" "- 101 \<le> m" "m < 2 ^ 63" by simp_all
    from list_posts_in_range [OF this, of coll]
    show "\<exists>r. list_posts ps coll = Some r \<and> status r = 200 \<and> success r" by simp
  qed
qed

theorem limit_parsing_witness:
  "snd (build_query no_params) = Num 10 \<and>
   snd (build_query (no_params\<lparr>q_limit := Some ''25''\<rparr>)) = Num 25 \<and>
   snd (build_query (no_params\<lparr>q_limit := Some []\<rparr>)) = NaN \<and>
   snd (build_query (no_params\<lparr>q_limit := Some ''px''\<rparr>)) = NaN \<and>
   (\<exists>r. list_posts no_params [demo_post] = Some r \<and> status r = 200 \<and> success r) \<and>
   (\<exists>r. list_posts (no_params\<lparr>q_limit := Some ''-2''\<rparr>) [demo_post] = Some r \<and>
        status r = 200 \<and> success r)"
proof -
  have 1: "snd (build_query no_params) = Num 10"
    using limit_parsing [where ps = no_params] by (simp add: no_params_def)
  have 2: "snd (build_query (no_params\<lparr>q_limit := Some ''25''\<rparr>)) = Num 25"
    using limit_parsing [where ps = "no_params\<lparr>q_limit := Some ''25''\<rparr>" and n = 25]
    by (simp add: decimal_25)
  have 3: "snd (build_query (no_params\<lparr>q_limit := Some []\<rparr>)) = NaN"
    using limit_parsing [where ps = "no_params\<lparr>q_limit := Some []\<rparr>"] by simp
  have 4: "snd (build_query (no_params\<lparr>q_limit := Some ''px''\<rparr>)) = NaN"
    using limit_parsing [where ps = "no_params\<lparr>q_limit := Some ''px''\<rparr>"
        and c = "CHR ''p''" and cs = "''x''"]
    by (simp add: js_whitespace_def is_digit_def digit_value_def)
  have 5: "\<exists>r. list_posts no_params [demo_post] = Some r \<and> status r = 200 \<and> success r"
    using limit_parsing [where ps = no_params and m = 10 and coll = "[demo_post]"] 1 by simp
  have "snd (build_query (no_params\<lparr>q_limit := Some ''-2''\<rparr>)) = Num (of_int (- 2))"
    by (simp add: build_query_limit parseInt_minus_2)
  then have 6: "\<exists>r. list_posts (no_params\<lparr>q_limit := Some ''-2''\<rparr>) [demo_post] = Some r \<and>
        status r = 200 \<and> success r"
    using limit_parsing [where ps = "no_params\<lparr>q_limit := Some ''-2''\<rparr>" and m = "- 2"
        and coll = "[demo_post]"] by simp
  from 1 2 3 4 5 6 show ?thesis by blast
qed

text \<open>
  Claim C6, as stated, fails: a tag parameter that is present but empty adds no
  constraint, so posts that do not have the empty text among their tags are listed.
\<close>

theorem list_empty_tag_counterexample:
  "list_posts (no_params\<lparr>q_tag := Some []\<rparr>) [demo_post] =
     Some \<lparr>status = 200, success = True, data = Some (PostDocs [demo_post]), error = None,
           message = None, count = Some 1, query = None\<rparr> \<and>
   [] \<notin> set (tags demo_post)"
proof -
  have "snd (build_query (no_params\<lparr>q_tag := Some []\<rparr>)) = Num (of_int 10)"
    by (simp add: build_query_limit no_params_def parseInt_default)
  from list_posts_in_range [OF this, of "[demo_post]"]
  show ?thesis by (simp add: selected_def no_params_def demo_post_def)
qed

text \<open>
  Claim C6, amended. For a list request whose limit is read as an integer from -101 up
  to below 2^63, the answer has status 200 and lists posts such that: they are, with
  multiplicity, among the posts of the collection that satisfy the selection (the tag,
  when present and not empty, is among the post's tags; published, when present, equals
  the comparison of the text with \<open>true\<close>; an absent parameter constrains nothing);
  they are in descending order of \<open>createdAt\<close>; their number is that of the posts
  satisfying the selection, cut at the magnitude of the limit unless the limit is 0; and
  no selected post left out is newer than a listed one.
\<close>

theorem list_filter_sort:
  assumes "snd (build_query ps) = Num (of_int n)" and "- 101 \<le> n" and "n < 2 ^ 63"
  shows "\<exists>posts.
     list_posts ps coll =
       Some \<lparr>status = 200, success = True, data = Some (PostDocs posts), error = None,
             message = None, count = Some (length posts), query = None\<rparr> \<and>
     sorted_wrt (\<lambda>a b. createdAt b \<le> createdAt a) posts \<and>
     mset posts \<subseteq># mset (filter (selected ps) coll) \<and>
     length posts =
       (if n = 0 then length (filter (selected ps) coll)
        else min (nat \<bar>n\<bar>) (length (filter (selected ps) coll))) \<and>
     (\<forall>a \<in># mset (filter (selected ps) coll) - mset posts.
        \<forall>b \<in> set posts. createdAt a \<le> createdAt b)"
proof -
  let ?F = "filter (selected ps) coll"
  let ?k = "if n = 0 then length coll else nat \<bar>n\<bar>"
  let ?posts = "take ?k (sort_key (\<lambda>p. - createdAt p) ?F)"
  have 1: "list_posts ps coll =
       Some \<lparr>status = 200, success = True, data = Some (PostDocs ?posts), error = None,
             message = None, count = Some (length ?posts), query = None\<rparr>"
    using assms by (rule list_posts_in_range)
  have 2: "sorted_wrt (\<lambda>a b. createdAt b \<le> createdAt a) ?posts"
    by (rule newest_first) (rule top_k(1))
  have 3: "mset ?posts \<subseteq># mset ?F" by (rule top_k(2))
  have "length ?F \<le> length coll" by simp
  then have 4: "length ?posts =
       (if n = 0 then length ?F else min (nat \<bar>n\<bar>) (length ?F))"
    by (simp add: min.commute)
  have 5: "\<forall>a \<in># mset ?F - mset ?posts. \<forall>b \<in> set ?posts. createdAt a \<le> createdAt b"
    using top_k(4) [of ?F ?k "\<lambda>p. - createdAt p"] by simp
  from 1 2 3 4 5 show ?thesis by blast
qed

theorem list_filter_sort_witness:
  "snd (build_query (no_params\<lparr>q_tag := Some ''x'', q_published := Some ''true''\<rparr>)) = Num 10 \<and>
   list_posts (no_params\<lparr>q_tag := Some ''x'', q_published := Some ''true''\<rparr>)
       [demo_post, demo_draft] =
     Some \<lparr>status = 200, success = True, data = Some (PostDocs [demo_post]), error = None,
           message = None, count = Some 1, query = None\<rparr>"
proof -
  let ?ps = "no_params\<lparr>q_tag := Some ''x'', q_published := Some ''true''\<rparr>"
  define coll where "coll = [demo_post, demo_draft]"
  have h: "snd (build_query ?ps) = Num (of_int 10)"
    by (simp add: build_query_limit no_params_def parseInt_default)
  have sel: "filter (selected ?ps) coll = [demo_post]"
    by (simp add: coll_def selected_def no_params_def demo_post_def demo_draft_def)
  from list_filter_sort [OF h, of coll] obtain posts where
    r: "list_posts ?ps coll =
         Some \<lparr>status = 200, success = True, data = Some (PostDocs posts), error = None,
               message = None, count = Some (length posts), query = None\<rparr>"
    and m: "mset posts \<subseteq># mset (filter (selected ?ps) coll)"
    and l: "length posts = 1"
    by (auto simp: sel)
  from l obtain p where p: "posts = [p]" by (cases posts) auto
  with m have "p \<in> set (filter (selected ?ps) coll)"
    by (metis list.set_intros(1) mset_subset_eqD set_mset_mset)
  then have "p = demo_post" unfolding sel by simp
  with p r h show ?thesis by (simp add: coll_def)
qed

subsection \<open>Search\<close>













end
